theory Spec2Isabelle
  imports Complex_Main
begin

section \<open>The warning frame of \<open>src/utils/auto-generated.ts\<close>\<close>

text \<open>
  The module exports two functions, \<open>generateAutoGeneratedWarningText\<close> and
  \<open>generateAutoGeneratedWarningFrame\<close>. A JavaScript string is modelled as a
  \<^typ>\<open>string\<close>, one \<^typ>\<open>char\<close> per code unit, so that \<open>length\<close> is the
  \<open>.length\<close> of the source. An optional property is an \<^typ>\<open>'a option\<close>, with
  \<open>None\<close> for \<open>undefined\<close>.
\<close>

subsection \<open>JavaScript operators used by the module\<close>

abbreviation LF :: char where
  "LF \<equiv> CHR 0x0A"

text \<open>Optional chaining \<open>x?.f\<close>.\<close>

definition opt_chain :: "'a option \<Rightarrow> ('a \<Rightarrow> 'b option) \<Rightarrow> 'b option" where
  "opt_chain x f = (case x of None \<Rightarrow> None | Some v \<Rightarrow> f v)"

text \<open>Nullish coalescing \<open>x ?? d\<close>: only \<open>undefined\<close> is replaced.\<close>

definition nullish :: "'a option \<Rightarrow> 'a \<Rightarrow> 'a" where
  "nullish x d = (case x of None \<Rightarrow> d | Some v \<Rightarrow> v)"

text \<open>\<open>!s\<close> on an optional string: \<open>undefined\<close> and the empty string are falsy.\<close>

definition falsy_string :: "string option \<Rightarrow> bool" where
  "falsy_string x = (case x of None \<Rightarrow> True | Some s \<Rightarrow> s = [])"

text \<open>\<open>x || d\<close> on an optional integer: \<open>undefined\<close> and \<open>0\<close> are falsy.\<close>

definition or_int :: "int option \<Rightarrow> int \<Rightarrow> int" where
  "or_int x d = (case x of None \<Rightarrow> d | Some v \<Rightarrow> if v = 0 then d else v)"

definition or_nat :: "nat option \<Rightarrow> nat \<Rightarrow> nat" where
  "or_nat x d = (case x of None \<Rightarrow> d | Some v \<Rightarrow> if v = 0 then d else v)"

text \<open>
  The numbers that \<open>frameSize / filler.length\<close> and \<open>Math.ceil\<close> can produce from two
  string lengths: a finite value, an infinity, or \<open>NaN\<close>. The finite quotient is
  kept exact; for two lengths of JavaScript strings the rounded quotient of the
  source has the same ceiling.
\<close>

datatype jsnum = Num rat | PosInf | NegInf | NaN

definition js_divide :: "nat \<Rightarrow> nat \<Rightarrow> jsnum" where
  "js_divide a b =
     (if b = 0 then (if a = 0 then NaN else PosInf)
      else Num (of_nat a / of_nat b))"

definition Math_ceil :: "jsnum \<Rightarrow> jsnum" where
  "Math_ceil x = (case x of Num q \<Rightarrow> Num (of_int \<lceil>q\<rceil>) | PosInf \<Rightarrow> PosInf
                  | NegInf \<Rightarrow> NegInf | NaN \<Rightarrow> NaN)"

datatype error = RangeError

text \<open>
  \<open>String.prototype.repeat\<close>: the count is converted to an integer by truncation
  (\<open>NaN\<close> becomes \<open>0\<close>); a negative or infinite count throws a \<open>RangeError\<close>.
\<close>

definition repeat :: "string \<Rightarrow> jsnum \<Rightarrow> error + string" where
  "repeat s count =
     (case count of
        NaN \<Rightarrow> Inr []
      | PosInf \<Rightarrow> Inl RangeError
      | NegInf \<Rightarrow> Inl RangeError
      | Num q \<Rightarrow>
          (let n = (if 0 \<le> q then \<lfloor>q\<rfloor> else \<lceil>q\<rceil>)
           in if n < 0 then Inl RangeError
              else Inr (concat (replicate (nat n) s))))"

text \<open>Array indexing \<open>xs[k]\<close>: \<open>undefined\<close> outside the array.\<close>

definition js_index :: "'a list \<Rightarrow> int \<Rightarrow> 'a option" where
  "js_index xs k = (if 0 \<le> k \<and> k < int (length xs) then Some (xs ! nat k) else None)"

subsection \<open>Collaborators that are imported by the module\<close>

text \<open>
  Modelled from the spec: the alignment values of \<open>StringPadOptions["align"]\<close>,
  declared in \<open>@/utils/string-utils\<close>, are the set \<open>{start, center, end}\<close>.
\<close>

datatype alignment = AlignStart | AlignCenter | AlignEnd

text \<open>
  \<open>splitLines\<close> and \<open>pad\<close> (\<open>@/utils/string-utils\<close>) and \<open>DEFAULT_NEWLINE\<close>
  (\<open>@/utils/environment\<close>) are imported by the module; the frame is rendered
  relative to them. \<open>splitLines text n\<close> is the call
  \<open>splitLines(text, { maxLength: n })\<close>, and \<open>pad x w a\<close> is the call
  \<open>pad(x, w, { align: a })\<close>, where \<open>a\<close> may be \<open>undefined\<close>.
\<close>

record collaborators =
  splitLines :: "string \<Rightarrow> int \<Rightarrow> string list"
  pad :: "string \<Rightarrow> nat \<Rightarrow> alignment option \<Rightarrow> string"
  DEFAULT_NEWLINE :: string

text \<open>
  Modelled from the spec: \<open>$i(xs).max()\<close> of \<open>@/utils/collections/iterable\<close>, the
  greatest element, \<open>undefined\<close> for an empty sequence.
\<close>

definition iter_max :: "nat list \<Rightarrow> nat option" where
  "iter_max xs = (case xs of [] \<Rightarrow> None | y # ys \<Rightarrow> Some (fold max ys y))"

text \<open>
  Modelled from the spec: \<open>$i(xs).join(sep)\<close> of \<open>@/utils/collections/iterable\<close>,
  the elements in order with the separator between neighbours.
\<close>

fun join :: "string \<Rightarrow> string list \<Rightarrow> string" where
  "join sep [] = []"
| "join sep [x] = x"
| "join sep (x # y # ys) = x @ sep @ join sep (y # ys)"

subsection \<open>Options and styles\<close>

record FrameStyle =
  lineStart :: "string option"
  filler :: "string option"
  lineEnd :: "string option"

datatype align_option = AlignOne alignment | AlignMany "alignment list"

record AutoGeneratedWarningFrameOptions =
  sourceFileName :: "string option"
  message :: "string option"
  align :: "align_option option"
  style :: "FrameStyle option"
  lineWidth :: "int option"
  newline :: "string option"

definition YAML_FRAME_STYLE :: FrameStyle where
  "YAML_FRAME_STYLE = \<lparr>lineStart = None, filler = Some ''#'', lineEnd = None\<rparr>"

definition JS_MULTILINE_FRAME_STYLE :: FrameStyle where
  "JS_MULTILINE_FRAME_STYLE =
     \<lparr>lineStart = Some ''/* '', filler = Some ''*'', lineEnd = Some '' */''\<rparr>"

definition JS_SINGLELINE_FRAME_STYLE :: FrameStyle where
  "JS_SINGLELINE_FRAME_STYLE = \<lparr>lineStart = None, filler = Some ''//'', lineEnd = None\<rparr>"

definition DEFAULT_FRAME_STYLE :: FrameStyle where
  "DEFAULT_FRAME_STYLE = YAML_FRAME_STYLE"

definition DEFAULT_FRAME_ALIGN :: "alignment list" where
  "DEFAULT_FRAME_ALIGN = [AlignCenter]"

subsection \<open>\<open>generateAutoGeneratedWarningText\<close>\<close>

definition baseWarning :: string where
  "baseWarning =
     ''WARNING: AUTO-GENERATED FILE - DO NOT EDIT!'' @ [LF, LF] @
     ''Please be advised that this is an auto-generated file and should NOT be modified. Any changes made to this file WILL BE OVERWRITTEN.''"

text \<open>
  The third paragraph is only built for a name that is not falsy, which is then a
  string.
\<close>

definition generateAutoGeneratedWarningText :: "string option \<Rightarrow> string" where
  "generateAutoGeneratedWarningText sourceFileName' =
     (if falsy_string sourceFileName' then baseWarning
      else baseWarning @ [LF, LF] @
        ''To make changes to the contents of this file, please modify the '' @
        nullish sourceFileName' ''undefined'' @
        '' file instead. This will ensure that your changes are properly reflected in the auto-generated file.'')"

subsection \<open>\<open>generateAutoGeneratedWarningFrame\<close>\<close>

text \<open>
  One definition for each \<open>const\<close> of the function body, in the order of the source.
  The argument \<open>options\<close> is itself optional. \<open>DEFAULT_FRAME_STYLE.filler\<close> is read
  off a constant whose filler is \<open>"#"\<close>. The width \<open>lineWidth\<close> is an integer here.
\<close>

definition message_of :: "AutoGeneratedWarningFrameOptions option \<Rightarrow> string" where
  "message_of options =
     nullish (opt_chain options message)
       (generateAutoGeneratedWarningText (opt_chain options sourceFileName))"

definition align_of :: "AutoGeneratedWarningFrameOptions option \<Rightarrow> alignment list" where
  "align_of options =
     (case opt_chain options align of
        Some (AlignMany xs) \<Rightarrow> xs
      | Some (AlignOne a) \<Rightarrow> [a]
      | None \<Rightarrow> DEFAULT_FRAME_ALIGN)"

definition filler_of :: "AutoGeneratedWarningFrameOptions option \<Rightarrow> string" where
  "filler_of options =
     nullish (opt_chain (opt_chain options style) filler) (the (filler DEFAULT_FRAME_STYLE))"

definition lineStart_of :: "AutoGeneratedWarningFrameOptions option \<Rightarrow> string" where
  "lineStart_of options =
     nullish (opt_chain (opt_chain options style) lineStart) (filler_of options @ '' '')"

definition lineEnd_of :: "AutoGeneratedWarningFrameOptions option \<Rightarrow> string" where
  "lineEnd_of options =
     nullish (opt_chain (opt_chain options style) lineEnd) ('' '' @ filler_of options)"

definition newline_of ::
  "collaborators \<Rightarrow> AutoGeneratedWarningFrameOptions option \<Rightarrow> string" where
  "newline_of env options = nullish (opt_chain options newline) (DEFAULT_NEWLINE env)"

definition minLineLength :: "AutoGeneratedWarningFrameOptions option \<Rightarrow> nat" where
  "minLineLength options = length (lineStart_of options) + length (lineEnd_of options)"

definition maxLineLength :: "AutoGeneratedWarningFrameOptions option \<Rightarrow> int" where
  "maxLineLength options =
     max (or_int (opt_chain options lineWidth) 0 - int (minLineLength options)) 0"

definition lines_of ::
  "collaborators \<Rightarrow> AutoGeneratedWarningFrameOptions option \<Rightarrow> string list" where
  "lines_of env options = splitLines env (message_of options) (maxLineLength options)"

definition frameSize ::
  "collaborators \<Rightarrow> AutoGeneratedWarningFrameOptions option \<Rightarrow> nat" where
  "frameSize env options = or_nat (iter_max (map length (lines_of env options))) 0"

definition fillerCount ::
  "collaborators \<Rightarrow> AutoGeneratedWarningFrameOptions option \<Rightarrow> jsnum" where
  "fillerCount env options =
     Math_ceil (js_divide (frameSize env options) (length (filler_of options)))"

definition frameLine ::
  "collaborators \<Rightarrow> AutoGeneratedWarningFrameOptions option \<Rightarrow> error + string" where
  "frameLine env options =
     (case repeat (filler_of options) (fillerCount env options) of
        Inl e \<Rightarrow> Inl e
      | Inr fill \<Rightarrow> Inr (lineStart_of options @ fill @ lineEnd_of options))"

text \<open>The alignment handed to \<open>pad\<close> for the line of index \<open>i\<close>.\<close>

definition lineAlign :: "alignment list \<Rightarrow> nat \<Rightarrow> alignment option" where
  "lineAlign al i = js_index al (min (int i) (int (length al) - 1))"

text \<open>The two \<open>map\<close> calls of the pipeline: the padded, decorated content lines.\<close>

definition contentLines ::
  "collaborators \<Rightarrow> AutoGeneratedWarningFrameOptions option \<Rightarrow> string list" where
  "contentLines env options =
     map (\<lambda>x. lineStart_of options @ x @ lineEnd_of options)
       (map (\<lambda>(i, x). pad env x (frameSize env options) (lineAlign (align_of options) i))
          (enumerate 0 (lines_of env options)))"

definition builtFrame ::
  "collaborators \<Rightarrow> AutoGeneratedWarningFrameOptions option \<Rightarrow> error + string" where
  "builtFrame env options =
     (case frameLine env options of
        Inl e \<Rightarrow> Inl e
      | Inr border \<Rightarrow>
          Inr (join (newline_of env options)
                 (border # (contentLines env options @ [border]))))"

definition generateAutoGeneratedWarningFrame ::
  "collaborators \<Rightarrow> AutoGeneratedWarningFrameOptions option \<Rightarrow> error + string" where
  "generateAutoGeneratedWarningFrame env options = builtFrame env options"

subsection \<open>The collaborators as the specification describes them\<close>

text \<open>
  Modelled from the spec: the line wrapper (\<open>splitLines\<close> of
  \<open>@/utils/string-utils\<close>, not part of this module). Explicit line breaks are hard
  splits; with a positive \<open>maxLength\<close> a longer line is cut further, here at
  character boundaries, so that no returned line exceeds it; \<open>maxLength\<close> zero or
  negative means unconstrained; empty input gives one empty line.
\<close>

fun hardBreaks :: "string \<Rightarrow> string list" where
  "hardBreaks [] = [[]]"
| "hardBreaks (c # cs) =
     (if c = LF then [] # hardBreaks cs
      else (case hardBreaks cs of [] \<Rightarrow> [[c]] | l # ls \<Rightarrow> (c # l) # ls))"

function chunks :: "nat \<Rightarrow> string \<Rightarrow> string list" where
  "chunks n s = (if n = 0 \<or> length s \<le> n then [s] else take n s # chunks n (drop n s))"
  by pat_completeness auto
termination
  by (relation "measure (\<lambda>(n, s). length s)") auto

declare chunks.simps [simp del]

definition spec_splitLines :: "string \<Rightarrow> int \<Rightarrow> string list" where
  "spec_splitLines text maxLength =
     (if maxLength \<le> 0 then hardBreaks text
      else concat (map (chunks (nat maxLength)) (hardBreaks text)))"

text \<open>
  Modelled from the spec: the padder (\<open>pad\<close> of \<open>@/utils/string-utils\<close>, not part
  of this module). The text is extended with spaces to exactly \<open>width\<close> characters:
  \<open>start\<close> appends the fill, \<open>end\<close> prepends it, \<open>center\<close> splits it as evenly as
  possible with the extra space on the trailing side; a text that is already
  \<open>width\<close> long or longer is returned unchanged. The specification does not say
  what happens without an alignment; this model then pads as for \<open>start\<close>.
\<close>

definition spec_pad :: "string \<Rightarrow> nat \<Rightarrow> alignment option \<Rightarrow> string" where
  "spec_pad text width a =
     (if width \<le> length text then text
      else (let fill = width - length text in
        case a of
          Some AlignEnd \<Rightarrow> replicate fill CHR '' '' @ text
        | Some AlignCenter \<Rightarrow>
            replicate (fill div 2) CHR '' '' @ text @ replicate (fill - fill div 2) CHR '' ''
        | Some AlignStart \<Rightarrow> text @ replicate fill CHR '' ''
        | None \<Rightarrow> text @ replicate fill CHR '' ''))"

text \<open>
  Modelled from the spec: the collaborators of the specification, with the Unix
  line terminator as the platform default (\<open>DEFAULT_NEWLINE\<close> of
  \<open>@/utils/environment\<close>, not part of this module).
\<close>

definition spec_env :: collaborators where
  "spec_env = \<lparr>splitLines = spec_splitLines, pad = spec_pad, DEFAULT_NEWLINE = [LF]\<rparr>"

subsection \<open>Measuring texts\<close>

text \<open>\<open>str_includes s sub\<close>: the string \<open>sub\<close> occurs in \<open>s\<close>.\<close>

fun startsWith :: "string \<Rightarrow> string \<Rightarrow> bool" where
  "startsWith s [] = True"
| "startsWith [] (c # cs) = False"
| "startsWith (d # ds) (c # cs) = (d = c \<and> startsWith ds cs)"

fun str_includes :: "string \<Rightarrow> string \<Rightarrow> bool" where
  "str_includes [] sub = startsWith [] sub"
| "str_includes (d # ds) sub = (startsWith (d # ds) sub \<or> str_includes ds sub)"

text \<open>The paragraphs of a text: its parts between blank lines.\<close>

fun paragraphs_from :: "string \<Rightarrow> string \<Rightarrow> string list" where
  "paragraphs_from cur (c # d # cs) =
     (if c = LF \<and> d = LF then rev cur # paragraphs_from [] cs
      else paragraphs_from (c # cur) (d # cs))"
| "paragraphs_from cur [c] = [rev (c # cur)]"
| "paragraphs_from cur [] = [rev cur]"

definition paragraphs :: "string \<Rightarrow> string list" where
  "paragraphs s = paragraphs_from [] s"

subsection \<open>Example inputs\<close>

definition options_hi :: AutoGeneratedWarningFrameOptions where
  "options_hi =
     \<lparr>sourceFileName = None, message = Some ''hi'', align = None,
      style = Some \<lparr>lineStart = None, filler = Some ''#'', lineEnd = None\<rparr>,
      lineWidth = None, newline = None\<rparr>"

definition options_slashes :: AutoGeneratedWarningFrameOptions where
  "options_slashes =
     \<lparr>sourceFileName = None, message = Some ''hello'', align = None,
      style = Some JS_SINGLELINE_FRAME_STYLE, lineWidth = None, newline = None\<rparr>"

definition options_two_lines :: AutoGeneratedWarningFrameOptions where
  "options_two_lines =
     \<lparr>sourceFileName = None, message = Some (''ab'' @ [LF] @ ''cdef''), align = None,
      style = None, lineWidth = None, newline = None\<rparr>"

definition options_short_align :: AutoGeneratedWarningFrameOptions where
  "options_short_align =
     \<lparr>sourceFileName = None, message = Some (''a'' @ [LF] @ ''bb'' @ [LF] @ ''ccc'' @ [LF] @ ''d''),
      align = Some (AlignMany [AlignStart, AlignEnd]),
      style = None, lineWidth = None, newline = None\<rparr>"

definition options_degenerate :: AutoGeneratedWarningFrameOptions where
  "options_degenerate =
     \<lparr>sourceFileName = None, message = Some [], align = Some (AlignMany []),
      style = None, lineWidth = Some (- 3), newline = None\<rparr>"

definition options_zero_width :: AutoGeneratedWarningFrameOptions where
  "options_zero_width =
     \<lparr>sourceFileName = None, message = Some ''ab cd'', align = Some (AlignMany []),
      style = None, lineWidth = Some 0, newline = None\<rparr>"

definition options_empty_message :: AutoGeneratedWarningFrameOptions where
  "options_empty_message =
     \<lparr>sourceFileName = None, message = Some [], align = None,
      style = None, lineWidth = None, newline = None\<rparr>"

definition options_narrow :: AutoGeneratedWarningFrameOptions where
  "options_narrow =
     \<lparr>sourceFileName = None, message = Some ''ab cd'', align = None,
      style = None, lineWidth = Some 1, newline = None\<rparr>"

definition options_empty_filler :: AutoGeneratedWarningFrameOptions where
  "options_empty_filler =
     \<lparr>sourceFileName = None, message = Some ''hi'', align = None,
      style = Some \<lparr>lineStart = None, filler = Some [], lineEnd = None\<rparr>,
      lineWidth = None, newline = None\<rparr>"

definition options_empty_filler_blank :: AutoGeneratedWarningFrameOptions where
  "options_empty_filler_blank =
     \<lparr>sourceFileName = None, message = Some [], align = None,
      style = Some \<lparr>lineStart = None, filler = Some [], lineEnd = None\<rparr>,
      lineWidth = None, newline = None\<rparr>"

section \<open>Properties\<close>

subsection \<open>Auxiliary facts\<close>

lemma opt_chain_simps:
  "opt_chain None f = None" "opt_chain (Some v) f = f v"
  by (simp_all add: opt_chain_def)

lemma nullish_simps:
  "nullish None d = d" "nullish (Some v) d = v"
  by (simp_all add: nullish_def)

lemma default_filler: "the (filler DEFAULT_FRAME_STYLE) = ''#''"
  by (simp add: DEFAULT_FRAME_STYLE_def YAML_FRAME_STYLE_def)

lemma iter_max_Max:
  assumes "xs \<noteq> []"
  shows "iter_max xs = Some (Max (set xs))"
proof (cases xs)
  case Nil
  with assms show ?thesis by simp
next
  case (Cons y ys)
  then show ?thesis
    using Max.set_eq_fold [of y ys] by (simp add: iter_max_def)
qed

lemma frameSize_eq:
  "frameSize env options =
     (if lines_of env options = [] then 0 else Max (length ` set (lines_of env options)))"
proof (cases "lines_of env options = []")
  case True
  then show ?thesis by (simp add: frameSize_def iter_max_def or_nat_def)
next
  case False
  then have "iter_max (map length (lines_of env options)) =
      Some (Max (length ` set (lines_of env options)))"
    using iter_max_Max [of "map length (lines_of env options)"] by simp
  with False show ?thesis by (simp add: frameSize_def or_nat_def)
qed

lemma frameSize_ge:
  assumes "l \<in> set (lines_of env options)"
  shows "length l \<le> frameSize env options"
proof -
  from assms have ne: "lines_of env options \<noteq> []" by auto
  have "length l \<le> Max (length ` set (lines_of env options))"
    using assms by (intro Max_ge) auto
  with ne show ?thesis by (simp add: frameSize_eq)
qed

lemma ceiling_of_nat_divide_nonneg: "0 \<le> \<lceil>(of_nat a :: rat) / of_nat b\<rceil>"
proof -
  have "(0::rat) \<le> of_nat a / of_nat b" by simp
  then have "\<lceil>0::rat\<rceil> \<le> \<lceil>(of_nat a :: rat) / of_nat b\<rceil>" by (rule ceiling_mono)
  then show ?thesis by simp
qed

lemma fillerCount_nonempty:
  assumes "filler_of options \<noteq> []"
  shows "fillerCount env options =
     Num (of_int \<lceil>of_nat (frameSize env options) / (of_nat (length (filler_of options)) :: rat)\<rceil>)"
  using assms by (simp add: fillerCount_def js_divide_def Math_ceil_def)

lemma repeat_of_int:
  assumes "0 \<le> n"
  shows "repeat s (Num (of_int n)) = Inr (concat (replicate (nat n) s))"
  using assms by (simp add: repeat_def)

lemma frameLine_nonempty:
  assumes "filler_of options \<noteq> []"
  shows "frameLine env options =
     Inr (lineStart_of options @
          concat (replicate
            (nat \<lceil>of_nat (frameSize env options) / (of_nat (length (filler_of options)) :: rat)\<rceil>)
            (filler_of options)) @
          lineEnd_of options)"
proof -
  let ?n = "\<lceil>of_nat (frameSize env options) / (of_nat (length (filler_of options)) :: rat)\<rceil>"
  have "repeat (filler_of options) (Num (of_int ?n)) =
      Inr (concat (replicate (nat ?n) (filler_of options)))"
    by (rule repeat_of_int) (rule ceiling_of_nat_divide_nonneg)
  with assms show ?thesis
    by (simp add: frameLine_def fillerCount_nonempty)
qed

lemma length_concat_replicate: "length (concat (replicate n s)) = n * length s"
  by (induction n) simp_all

lemma length_contentLines: "length (contentLines env options) = length (lines_of env options)"
  by (simp add: contentLines_def)

lemma nth_contentLines:
  assumes "i < length (lines_of env options)"
  shows "contentLines env options ! i =
     lineStart_of options @
     pad env (lines_of env options ! i) (frameSize env options) (lineAlign (align_of options) i) @
     lineEnd_of options"
  using assms by (simp add: contentLines_def nth_enumerate_eq)

lemma lineAlign_nonempty:
  assumes "al \<noteq> []"
  shows "lineAlign al i = Some (al ! min i (length al - 1))"
proof -
  from assms have pos: "0 < length al" by simp
  then have k: "min (int i) (int (length al) - 1) = int (min i (length al - 1))"
    by linarith
  from pos have "min i (length al - 1) < length al" by linarith
  then show ?thesis
    unfolding lineAlign_def js_index_def k by simp
qed

lemma lineAlign_empty: "lineAlign [] i = None"
  by (simp add: lineAlign_def js_index_def)

lemmas const_defs =
  DEFAULT_FRAME_STYLE_def YAML_FRAME_STYLE_def DEFAULT_FRAME_ALIGN_def

lemmas resolve_defs =
  filler_of_def lineStart_of_def lineEnd_of_def newline_of_def align_of_def message_of_def
  maxLineLength_def minLineLength_def or_int_def opt_chain_def nullish_def const_defs

text \<open>The collaborators of the specification.\<close>

lemma spec_env_fields:
  "splitLines spec_env = spec_splitLines"
  "pad spec_env = spec_pad"
  "DEFAULT_NEWLINE spec_env = [LF]"
  by (simp_all add: spec_env_def)

lemma spec_pad_length:
  assumes "length x \<le> w"
  shows "length (spec_pad x w a) = w"
proof (cases "w \<le> length x")
  case True
  with assms show ?thesis by (simp add: spec_pad_def)
next
  case False
  then show ?thesis
    by (cases a) (auto simp: spec_pad_def Let_def split: alignment.splits)
qed

subsection \<open>The warning text\<close>

text \<open>
  C7: without a source file name the warning text is the fixed base warning, which has
  exactly two paragraphs and does not mention \<open>config.yaml\<close>; with the source file
  name \<open>config.yaml\<close> the text is the same two paragraphs followed by a third one,
  which contains \<open>config.yaml\<close> and tells the reader to modify that file instead.
\<close>

theorem warning_text_paragraphs:
  "generateAutoGeneratedWarningText None = baseWarning
   \<and> paragraphs baseWarning =
       [''WARNING: AUTO-GENERATED FILE - DO NOT EDIT!'',
        ''Please be advised that this is an auto-generated file and should NOT be modified. Any changes made to this file WILL BE OVERWRITTEN.'']
   \<and> \<not> str_includes (generateAutoGeneratedWarningText None) ''config.yaml''
   \<and> paragraphs (generateAutoGeneratedWarningText (Some ''config.yaml'')) =
       paragraphs (generateAutoGeneratedWarningText None) @
       [''To make changes to the contents of this file, please modify the config.yaml file instead. This will ensure that your changes are properly reflected in the auto-generated file.'']
   \<and> str_includes (generateAutoGeneratedWarningText (Some ''config.yaml'')) ''config.yaml''"
  by code_simp

text \<open>
  C10: an empty source file name is treated like an absent one, the text is the base
  warning alone. An empty message is honoured by the frame: the message that is
  wrapped is the empty string, whereas an absent message is replaced by the warning
  text, which is never empty.
\<close>

theorem empty_names_and_messages:
  "generateAutoGeneratedWarningText (Some []) = generateAutoGeneratedWarningText None
   \<and> generateAutoGeneratedWarningText (Some []) = baseWarning
   \<and> message_of (Some (opts\<lparr>message := Some []\<rparr>)) = []
   \<and> lines_of env (Some (opts\<lparr>message := Some []\<rparr>)) =
       splitLines env [] (maxLineLength (Some opts))
   \<and> message_of (Some (opts\<lparr>message := None\<rparr>)) =
       generateAutoGeneratedWarningText (sourceFileName opts)
   \<and> generateAutoGeneratedWarningText (sourceFileName opts) \<noteq> []"
  by (simp add: generateAutoGeneratedWarningText_def falsy_string_def message_of_def
      lines_of_def maxLineLength_def minLineLength_def lineStart_of_def lineEnd_of_def
      filler_of_def opt_chain_simps nullish_simps baseWarning_def)

subsection \<open>The example of the specification\<close>

text \<open>
  C1: for the options \<open>{ message: "hi", style: { filler: "#" } }\<close>, a line wrapper that
  returns the single line \<open>hi\<close>, a padder that leaves \<open>hi\<close> unchanged at width 2 and
  the newline \<open>\n\<close>, the derived \<open>lineStart\<close> is \<open>"# "\<close>, \<open>lineEnd\<close> is \<open>" #"\<close>,
  \<open>frameSize\<close> is 2, \<open>fillerCount\<close> is 2, and the frame is the border \<open># ## #\<close>, the
  content line \<open># hi #\<close> and the border again, joined by the newline.
\<close>

theorem frame_of_hi:
  assumes "splitLines env ''hi'' 0 = [''hi'']"
    and "pad env ''hi'' 2 (Some AlignCenter) = ''hi''"
    and "DEFAULT_NEWLINE env = [LF]"
  shows "lineStart_of (Some options_hi) = ''# ''
    \<and> lineEnd_of (Some options_hi) = '' #''
    \<and> frameSize env (Some options_hi) = 2
    \<and> fillerCount env (Some options_hi) = Num 2
    \<and> frameLine env (Some options_hi) = Inr ''# ## #''
    \<and> contentLines env (Some options_hi) = [''# hi #'']
    \<and> generateAutoGeneratedWarningFrame env (Some options_hi) =
        Inr (''# ## #'' @ [LF] @ ''# hi #'' @ [LF] @ ''# ## #'')"
proof -
  have ls: "lineStart_of (Some options_hi) = ''# ''"
    and le: "lineEnd_of (Some options_hi) = '' #''"
    and fl: "filler_of (Some options_hi) = ''#''"
    and al: "align_of (Some options_hi) = [AlignCenter]"
    and nl: "newline_of env (Some options_hi) = [LF]"
    and msg: "message_of (Some options_hi) = ''hi''"
    using assms(3)
    by (simp_all add: options_hi_def lineStart_of_def lineEnd_of_def filler_of_def
        align_of_def newline_of_def message_of_def opt_chain_def nullish_def const_defs)
  have mx: "maxLineLength (Some options_hi) = 0"
    by (simp add: maxLineLength_def minLineLength_def ls le options_hi_def opt_chain_def
        or_int_def)
  have lns: "lines_of env (Some options_hi) = [''hi'']"
    using assms(1) by (simp add: lines_of_def msg mx)
  have fs: "frameSize env (Some options_hi) = 2"
    by (simp add: frameSize_def lns iter_max_def or_nat_def)
  have fc: "fillerCount env (Some options_hi) = Num 2"
    by (simp add: fillerCount_def fs fl js_divide_def Math_ceil_def)
  have border: "frameLine env (Some options_hi) = Inr ''# ## #''"
    by (simp add: frameLine_def fc fl ls le repeat_def numeral_2_eq_2)
  have content: "contentLines env (Some options_hi) = [''# hi #'']"
    using assms(2)
    by (simp add: contentLines_def lns fs al ls le lineAlign_def js_index_def)
  have "generateAutoGeneratedWarningFrame env (Some options_hi) =
      Inr (''# ## #'' @ [LF] @ ''# hi #'' @ [LF] @ ''# ## #'')"
    by (simp add: generateAutoGeneratedWarningFrame_def builtFrame_def border content nl)
  with ls le fs fc border content show ?thesis by simp
qed

theorem frame_of_hi_witness:
  "splitLines spec_env ''hi'' 0 = [''hi'']
   \<and> pad spec_env ''hi'' 2 (Some AlignCenter) = ''hi''
   \<and> DEFAULT_NEWLINE spec_env = [LF]
   \<and> generateAutoGeneratedWarningFrame spec_env (Some options_hi) =
       Inr (''# ## #'' @ [LF] @ ''# hi #'' @ [LF] @ ''# ## #'')"
proof -
  have a: "splitLines spec_env ''hi'' 0 = [''hi'']"
    by (simp add: spec_env_def spec_splitLines_def)
  have b: "pad spec_env ''hi'' 2 (Some AlignCenter) = ''hi''"
    by (simp add: spec_env_def spec_pad_def)
  have c: "DEFAULT_NEWLINE spec_env = [LF]"
    by (simp add: spec_env_def)
  from frame_of_hi [OF a b c] a b c show ?thesis by simp
qed

subsection \<open>The border fill\<close>

lemma ceiling_covers:
  assumes "0 < b"
  shows "a \<le> nat \<lceil>(of_nat a :: rat) / of_nat b\<rceil> * b"
proof -
  let ?c = "\<lceil>(of_nat a :: rat) / of_nat b\<rceil>"
  have c0: "0 \<le> ?c" by (rule ceiling_of_nat_divide_nonneg)
  from assms have bpos: "(0::rat) < of_nat b" by simp
  have "(of_nat a :: rat) / of_nat b \<le> of_int ?c" by (rule le_of_int_ceiling)
  then have "(of_nat a :: rat) \<le> of_int ?c * of_nat b"
    by (simp only: pos_divide_le_eq [OF bpos])
  also have "of_int ?c * (of_nat b :: rat) = of_nat (nat ?c * b)"
    using c0 by simp
  finally show ?thesis by (simp only: of_nat_le_iff)
qed

lemma ceiling_least:
  assumes "0 < b" and "a \<le> m * b"
  shows "nat \<lceil>(of_nat a :: rat) / of_nat b\<rceil> \<le> m"
proof -
  from assms(2) have "(of_nat a :: rat) \<le> of_nat (m * b)" by (simp only: of_nat_le_iff)
  then have "(of_nat a :: rat) \<le> of_nat m * of_nat b" by simp
  moreover from assms(1) have "(0::rat) < of_nat b" by simp
  ultimately have "(of_nat a :: rat) / of_nat b \<le> of_int (int m)"
    by (simp add: pos_divide_le_eq)
  then have "\<lceil>(of_nat a :: rat) / of_nat b\<rceil> \<le> int m" by (simp only: ceiling_le_iff)
  then show ?thesis by simp
qed

text \<open>
  C4: with a non-empty filler, \<open>frameSize\<close> is the greatest length of a wrapped line
  (0 when there is none), \<open>fillerCount\<close> is the ceiling of \<open>frameSize\<close> divided by the
  length of the filler, which is the least number of fillers that cover \<open>frameSize\<close>
  characters, the border repeats the filler that many times, and the count is 0 when
  \<open>frameSize\<close> is 0.
\<close>

theorem fillerCount_is_ceiling:
  assumes "filler_of options \<noteq> []"
  shows "frameSize env options =
      (if lines_of env options = [] then 0 else Max (length ` set (lines_of env options)))
    \<and> fillerCount env options =
      Num (of_int \<lceil>of_nat (frameSize env options) / (of_nat (length (filler_of options)) :: rat)\<rceil>)
    \<and> frameLine env options =
      Inr (lineStart_of options @
           concat (replicate
             (nat \<lceil>of_nat (frameSize env options) / (of_nat (length (filler_of options)) :: rat)\<rceil>)
             (filler_of options)) @
           lineEnd_of options)
    \<and> frameSize env options \<le>
      nat \<lceil>of_nat (frameSize env options) / (of_nat (length (filler_of options)) :: rat)\<rceil> *
        length (filler_of options)
    \<and> (\<forall>m. frameSize env options \<le> m * length (filler_of options) \<longrightarrow>
          nat \<lceil>of_nat (frameSize env options) / (of_nat (length (filler_of options)) :: rat)\<rceil> \<le> m)
    \<and> (frameSize env options = 0 \<longrightarrow> fillerCount env options = Num 0)"
proof -
  from assms have pos: "0 < length (filler_of options)" by simp
  have fc: "fillerCount env options =
      Num (of_int \<lceil>of_nat (frameSize env options) / (of_nat (length (filler_of options)) :: rat)\<rceil>)"
    using assms by (rule fillerCount_nonempty)
  have zero: "frameSize env options = 0 \<longrightarrow> fillerCount env options = Num 0"
    by (simp add: fc)
  have least: "\<forall>m. frameSize env options \<le> m * length (filler_of options) \<longrightarrow>
      nat \<lceil>of_nat (frameSize env options) / (of_nat (length (filler_of options)) :: rat)\<rceil> \<le> m"
    using ceiling_least [OF pos] by blast
  show ?thesis
    using frameSize_eq [of env options] fc frameLine_nonempty [OF assms, of env]
      ceiling_covers [OF pos, of "frameSize env options"] least zero
    by blast
qed

theorem fillerCount_is_ceiling_witness:
  "filler_of (Some options_slashes) \<noteq> []
   \<and> frameSize spec_env (Some options_slashes) = 5
   \<and> fillerCount spec_env (Some options_slashes) = Num 3
   \<and> frameLine spec_env (Some options_slashes) = Inr ''// ////// //''"
proof -
  have fl: "filler_of (Some options_slashes) = ''//''"
    by (simp add: filler_of_def options_slashes_def JS_SINGLELINE_FRAME_STYLE_def
        opt_chain_def nullish_def)
  then have ne: "filler_of (Some options_slashes) \<noteq> []" by simp
  have ls: "lineStart_of (Some options_slashes) = ''// ''"
    and le: "lineEnd_of (Some options_slashes) = '' //''"
    by (simp_all add: lineStart_of_def lineEnd_of_def filler_of_def options_slashes_def
        JS_SINGLELINE_FRAME_STYLE_def opt_chain_def nullish_def)
  have lns: "lines_of spec_env (Some options_slashes) = [''hello'']"
    by (simp add: lines_of_def message_of_def maxLineLength_def minLineLength_def
        lineStart_of_def lineEnd_of_def filler_of_def JS_SINGLELINE_FRAME_STYLE_def
        options_slashes_def opt_chain_def nullish_def or_int_def spec_env_def
        spec_splitLines_def)
  have c: "\<lceil>(5::rat) / 2\<rceil> = 3" by (rule ceiling_unique) simp_all
  from fillerCount_is_ceiling [OF ne, of spec_env] ne show ?thesis
    by (simp add: lns fl ls le c numeral_3_eq_3)
qed

subsection \<open>Widths of the rendered lines\<close>

lemma built_frame_nonempty:
  assumes "filler_of options \<noteq> []"
  shows "generateAutoGeneratedWarningFrame env options =
     Inr (join (newline_of env options)
       ((lineStart_of options @
         concat (replicate
           (nat \<lceil>of_nat (frameSize env options) / (of_nat (length (filler_of options)) :: rat)\<rceil>)
           (filler_of options)) @
         lineEnd_of options) #
        contentLines env options @
        [lineStart_of options @
         concat (replicate
           (nat \<lceil>of_nat (frameSize env options) / (of_nat (length (filler_of options)) :: rat)\<rceil>)
           (filler_of options)) @
         lineEnd_of options]))"
  by (simp add: generateAutoGeneratedWarningFrame_def builtFrame_def
      frameLine_nonempty [OF assms])

text \<open>
  C5: with a padder that returns exactly \<open>width\<close> characters for a text no longer
  than \<open>width\<close> and a non-empty filler, the frame is the border, the content lines and
  the border again; every content line is \<open>lineStart\<close>, a padded line of exactly
  \<open>frameSize\<close> characters, and \<open>lineEnd\<close>; the border has
  \<open>length lineStart + fillerCount * length filler + length lineEnd\<close> characters. This
  holds for every message and every \<open>lineWidth\<close>, in particular for a non-empty
  message with no \<open>lineWidth\<close>.
\<close>

theorem uniform_widths:
  assumes pad_exact: "\<forall>x w a. length x \<le> w \<longrightarrow> length (pad env x w a) = w"
    and filler: "filler_of options \<noteq> []"
  shows "let n = nat \<lceil>of_nat (frameSize env options) /
                     (of_nat (length (filler_of options)) :: rat)\<rceil>;
             border = lineStart_of options @ concat (replicate n (filler_of options)) @
                      lineEnd_of options
         in fillerCount env options = Num (of_nat n)
          \<and> generateAutoGeneratedWarningFrame env options =
              Inr (join (newline_of env options) (border # contentLines env options @ [border]))
          \<and> length border =
              length (lineStart_of options) + n * length (filler_of options) +
              length (lineEnd_of options)
          \<and> length (contentLines env options) = length (lines_of env options)
          \<and> (\<forall>i < length (lines_of env options).
                contentLines env options ! i =
                  lineStart_of options @
                  pad env (lines_of env options ! i) (frameSize env options)
                    (lineAlign (align_of options) i) @
                  lineEnd_of options
              \<and> length (pad env (lines_of env options ! i) (frameSize env options)
                    (lineAlign (align_of options) i)) = frameSize env options)"
proof -
  let ?c = "\<lceil>of_nat (frameSize env options) / (of_nat (length (filler_of options)) :: rat)\<rceil>"
  let ?n = "nat ?c"
  let ?border = "lineStart_of options @ concat (replicate ?n (filler_of options)) @
    lineEnd_of options"
  have c0: "0 \<le> ?c" by (rule ceiling_of_nat_divide_nonneg)
  then have "(of_int ?c :: rat) = of_nat ?n" by simp
  then have count: "fillerCount env options = Num (of_nat ?n)"
    using fillerCount_nonempty [OF filler, of env] by simp
  have out: "generateAutoGeneratedWarningFrame env options =
      Inr (join (newline_of env options) (?border # contentLines env options @ [?border]))"
    by (rule built_frame_nonempty [OF filler])
  have len: "length ?border =
      length (lineStart_of options) + ?n * length (filler_of options) +
      length (lineEnd_of options)"
    by (simp add: length_concat_replicate)
  have rows: "\<forall>i < length (lines_of env options).
      contentLines env options ! i =
        lineStart_of options @
        pad env (lines_of env options ! i) (frameSize env options)
          (lineAlign (align_of options) i) @
        lineEnd_of options
      \<and> length (pad env (lines_of env options ! i) (frameSize env options)
          (lineAlign (align_of options) i)) = frameSize env options"
  proof (intro allI impI conjI)
    fix i assume i: "i < length (lines_of env options)"
    then show "contentLines env options ! i =
        lineStart_of options @
        pad env (lines_of env options ! i) (frameSize env options)
          (lineAlign (align_of options) i) @
        lineEnd_of options"
      by (rule nth_contentLines)
    from i have "lines_of env options ! i \<in> set (lines_of env options)" by simp
    then have "length (lines_of env options ! i) \<le> frameSize env options"
      by (rule frameSize_ge)
    with pad_exact show "length (pad env (lines_of env options ! i) (frameSize env options)
        (lineAlign (align_of options) i)) = frameSize env options"
      by blast
  qed
  from count out len rows length_contentLines [of env options] show ?thesis
    unfolding Let_def by blast
qed

lemma two_lines_basics:
  "filler_of (Some options_two_lines) = ''#''"
  "lineStart_of (Some options_two_lines) = ''# ''"
  "lineEnd_of (Some options_two_lines) = '' #''"
  "newline_of spec_env (Some options_two_lines) = [LF]"
  "align_of (Some options_two_lines) = [AlignCenter]"
  "lines_of spec_env (Some options_two_lines) = [''ab'', ''cdef'']"
  by (simp_all add: filler_of_def lineStart_of_def lineEnd_of_def newline_of_def align_of_def
      lines_of_def message_of_def maxLineLength_def minLineLength_def or_int_def
      options_two_lines_def opt_chain_def nullish_def const_defs spec_env_fields
      spec_splitLines_def)

theorem uniform_widths_witness:
  "filler_of (Some options_two_lines) \<noteq> []
   \<and> frameSize spec_env (Some options_two_lines) = 4
   \<and> contentLines spec_env (Some options_two_lines) = [''#  ab  #'', ''# cdef #'']
   \<and> generateAutoGeneratedWarningFrame spec_env (Some options_two_lines) =
       Inr (''# #### #'' @ [LF] @ ''#  ab  #'' @ [LF] @ ''# cdef #'' @ [LF] @ ''# #### #'')"
proof -
  have contract: "\<forall>x w a. length x \<le> w \<longrightarrow> length (pad spec_env x w a) = w"
    by (simp add: spec_env_fields spec_pad_length)
  have ne: "filler_of (Some options_two_lines) \<noteq> []"
    by (simp add: two_lines_basics)
  have fs: "frameSize spec_env (Some options_two_lines) = 4"
    by (simp add: frameSize_def two_lines_basics iter_max_def or_nat_def)
  have c: "\<lceil>(4::rat)\<rceil> = 4" by (rule ceiling_unique) simp_all
  have rows: "contentLines spec_env (Some options_two_lines) = [''#  ab  #'', ''# cdef #'']"
    by (simp add: contentLines_def two_lines_basics fs lineAlign_def js_index_def
        spec_env_fields spec_pad_def eval_nat_numeral)
  from uniform_widths [OF contract ne] ne fs rows show ?thesis
    by (simp add: Let_def two_lines_basics c eval_nat_numeral)
qed

subsection \<open>Alignment\<close>

text \<open>
  C6: the alignment handed to the padder for the content line of index \<open>i\<close> is the
  entry of the alignment sequence at index \<open>min(i, length - 1)\<close>. A single alignment
  value is used for every line; a sequence is used in order and its last entry for
  every line from the end of the sequence on; an absent \<open>align\<close> is the sequence
  \<open>[center]\<close>.
\<close>

theorem alignment_of_each_line:
  "(\<forall>i < length (lines_of env options).
      contentLines env options ! i =
        lineStart_of options @
        pad env (lines_of env options ! i) (frameSize env options)
          (js_index (align_of options)
             (min (int i) (int (length (align_of options)) - 1))) @
        lineEnd_of options)
   \<and> (align_of options \<noteq> [] \<longrightarrow>
        (\<forall>i. js_index (align_of options)
               (min (int i) (int (length (align_of options)) - 1)) =
             Some (align_of options ! min i (length (align_of options) - 1))))
   \<and> (\<forall>a. opt_chain options align = Some (AlignOne a) \<longrightarrow>
        (\<forall>i. lineAlign (align_of options) i = Some a))
   \<and> (\<forall>xs. opt_chain options align = Some (AlignMany xs) \<longrightarrow>
        align_of options = xs
        \<and> (\<forall>i < length xs. lineAlign (align_of options) i = Some (xs ! i))
        \<and> (\<forall>i. xs \<noteq> [] \<and> length xs \<le> Suc i \<longrightarrow>
              lineAlign (align_of options) i = Some (last xs)))
   \<and> (opt_chain options align = None \<longrightarrow>
        align_of options = [AlignCenter]
        \<and> (\<forall>i. lineAlign (align_of options) i = Some AlignCenter))"
proof (intro conjI allI impI)
  fix i assume "i < length (lines_of env options)"
  then show "contentLines env options ! i =
      lineStart_of options @
      pad env (lines_of env options ! i) (frameSize env options)
        (js_index (align_of options)
           (min (int i) (int (length (align_of options)) - 1))) @
      lineEnd_of options"
    using nth_contentLines [of i env options] by (simp add: lineAlign_def)
next
  fix i assume "align_of options \<noteq> []"
  then show "js_index (align_of options)
      (min (int i) (int (length (align_of options)) - 1)) =
      Some (align_of options ! min i (length (align_of options) - 1))"
    using lineAlign_nonempty [of "align_of options" i] by (simp add: lineAlign_def)
next
  fix a i assume "opt_chain options align = Some (AlignOne a)"
  then have "align_of options = [a]" by (simp add: align_of_def)
  then show "lineAlign (align_of options) i = Some a"
    by (simp add: lineAlign_nonempty)
next
  fix xs assume "opt_chain options align = Some (AlignMany xs)"
  then show "align_of options = xs" by (simp add: align_of_def)
next
  fix xs i assume a: "opt_chain options align = Some (AlignMany xs)" and i: "i < length xs"
  from a have "align_of options = xs" by (simp add: align_of_def)
  moreover from i have "xs \<noteq> []" by auto
  moreover from i have "min i (length xs - 1) = i" by simp
  ultimately show "lineAlign (align_of options) i = Some (xs ! i)"
    by (simp add: lineAlign_nonempty)
next
  fix xs i assume a: "opt_chain options align = Some (AlignMany xs)"
    and i: "xs \<noteq> [] \<and> length xs \<le> Suc i"
  from a have "align_of options = xs" by (simp add: align_of_def)
  moreover from i have "min i (length xs - 1) = length xs - 1" by arith
  ultimately show "lineAlign (align_of options) i = Some (last xs)"
    using i by (simp add: lineAlign_nonempty last_conv_nth)
next
  assume "opt_chain options align = None"
  then show "align_of options = [AlignCenter]"
    by (simp add: align_of_def DEFAULT_FRAME_ALIGN_def)
next
  fix i assume "opt_chain options align = None"
  then have "align_of options = [AlignCenter]"
    by (simp add: align_of_def DEFAULT_FRAME_ALIGN_def)
  then show "lineAlign (align_of options) i = Some AlignCenter"
    by (simp add: lineAlign_nonempty)
qed

lemma short_align_basics:
  "filler_of (Some options_short_align) = ''#''"
  "lineStart_of (Some options_short_align) = ''# ''"
  "lineEnd_of (Some options_short_align) = '' #''"
  "opt_chain (Some options_short_align) align = Some (AlignMany [AlignStart, AlignEnd])"
  "lines_of spec_env (Some options_short_align) = [''a'', ''bb'', ''ccc'', ''d'']"
  by (simp_all add: filler_of_def lineStart_of_def lineEnd_of_def 
      lines_of_def message_of_def maxLineLength_def minLineLength_def or_int_def
      options_short_align_def opt_chain_def nullish_def const_defs spec_env_fields
      spec_splitLines_def)

theorem alignment_of_each_line_witness:
  "map (lineAlign (align_of (Some options_short_align))) [0, 1, 2, 3] =
     [Some AlignStart, Some AlignEnd, Some AlignEnd, Some AlignEnd]
   \<and> contentLines spec_env (Some options_short_align) =
     [''# a   #'', ''#  bb #'', ''# ccc #'', ''#   d #'']"
proof -
  note main = alignment_of_each_line [of spec_env "Some options_short_align"]
  from main short_align_basics(4)
  have al: "align_of (Some options_short_align) = [AlignStart, AlignEnd]"
    and inside: "\<forall>i < length [AlignStart, AlignEnd].
        lineAlign (align_of (Some options_short_align)) i = Some ([AlignStart, AlignEnd] ! i)"
    and beyond: "\<forall>i. [AlignStart, AlignEnd] \<noteq> [] \<and> length [AlignStart, AlignEnd] \<le> Suc i \<longrightarrow>
        lineAlign (align_of (Some options_short_align)) i = Some (last [AlignStart, AlignEnd])"
    by blast+
  from inside have a0: "lineAlign (align_of (Some options_short_align)) 0 = Some AlignStart"
    and a1: "lineAlign (align_of (Some options_short_align)) 1 = Some AlignEnd"
    by simp_all
  from beyond have a2: "lineAlign (align_of (Some options_short_align)) 2 = Some AlignEnd"
    and a3: "lineAlign (align_of (Some options_short_align)) 3 = Some AlignEnd"
    by simp_all
  have fs: "frameSize spec_env (Some options_short_align) = 3"
    by (simp add: frameSize_def short_align_basics iter_max_def or_nat_def)
  have "contentLines spec_env (Some options_short_align) =
      [''# a   #'', ''#  bb #'', ''# ccc #'', ''#   d #'']"
    using a0 a1 a2 a3
    by (simp add: contentLines_def short_align_basics fs spec_env_fields spec_pad_def
        eval_nat_numeral)
  with a0 a1 a2 a3 show ?thesis by simp
qed

subsection \<open>The empty message\<close>

text \<open>
  C8: for the message \<open>""\<close> with no alignment and no \<open>lineWidth\<close>, a line wrapper
  that returns one empty line for the empty text and a padder that leaves the empty
  text unchanged at width 0, \<open>frameSize\<close> is 0, \<open>fillerCount\<close> is 0, the border is
  \<open>lineStart + lineEnd\<close> with no filler, and the single content line is
  \<open>lineStart + lineEnd\<close> too; with the default style these are \<open>"# "\<close> and \<open>" #"\<close>.
\<close>

theorem frame_of_empty_message:
  assumes split: "splitLines env [] 0 = [[]]"
    and pad: "pad env [] 0 (Some AlignCenter) = []"
    and options: "options =
      Some \<lparr>sourceFileName = sf, message = Some [], align = None, style = st,
            lineWidth = None, newline = nl\<rparr>"
    and filler: "filler_of options \<noteq> []"
  shows "frameSize env options = 0
    \<and> fillerCount env options = Num 0
    \<and> frameLine env options = Inr (lineStart_of options @ lineEnd_of options)
    \<and> contentLines env options = [lineStart_of options @ lineEnd_of options]
    \<and> generateAutoGeneratedWarningFrame env options =
        Inr (join (newline_of env options)
          [lineStart_of options @ lineEnd_of options,
           lineStart_of options @ lineEnd_of options,
           lineStart_of options @ lineEnd_of options])
    \<and> (st = None \<longrightarrow> lineStart_of options = ''# '' \<and> lineEnd_of options = '' #'')"
proof -
  have lns: "lines_of env options = [[]]"
    using split by (simp add: lines_of_def options resolve_defs)
  have fs: "frameSize env options = 0"
    by (simp add: frameSize_def lns iter_max_def or_nat_def)
  have fc: "fillerCount env options = Num 0"
    using fillerCount_nonempty [OF filler, of env] by (simp add: fs)
  have border: "frameLine env options = Inr (lineStart_of options @ lineEnd_of options)"
    using frameLine_nonempty [OF filler, of env] by (simp add: fs)
  have al: "lineAlign (align_of options) 0 = Some AlignCenter"
    by (simp add: options align_of_def opt_chain_def DEFAULT_FRAME_ALIGN_def lineAlign_def
        js_index_def)
  have rows: "contentLines env options = [lineStart_of options @ lineEnd_of options]"
    using pad by (simp add: contentLines_def lns fs al)
  have out: "generateAutoGeneratedWarningFrame env options =
      Inr (join (newline_of env options)
        [lineStart_of options @ lineEnd_of options,
         lineStart_of options @ lineEnd_of options,
         lineStart_of options @ lineEnd_of options])"
    by (simp add: generateAutoGeneratedWarningFrame_def builtFrame_def border rows)
  have dflt: "st = None \<longrightarrow> lineStart_of options = ''# '' \<and> lineEnd_of options = '' #''"
    by (simp add: options resolve_defs)
  from fs fc border rows out dflt show ?thesis by blast
qed

theorem frame_of_empty_message_witness:
  "splitLines spec_env [] 0 = [[]]
   \<and> pad spec_env [] 0 (Some AlignCenter) = []
   \<and> filler_of (Some options_empty_message) \<noteq> []
   \<and> frameSize spec_env (Some options_empty_message) = 0
   \<and> fillerCount spec_env (Some options_empty_message) = Num 0
   \<and> generateAutoGeneratedWarningFrame spec_env (Some options_empty_message) =
       Inr (''#  #'' @ [LF] @ ''#  #'' @ [LF] @ ''#  #'')"
proof -
  have a: "splitLines spec_env [] 0 = [[]]"
    by (simp add: spec_env_fields spec_splitLines_def)
  have b: "pad spec_env [] 0 (Some AlignCenter) = []"
    by (simp add: spec_env_fields spec_pad_def)
  have c: "Some options_empty_message =
      Some \<lparr>sourceFileName = None, message = Some [], align = None, style = None,
            lineWidth = None, newline = None\<rparr>"
    by (simp add: options_empty_message_def)
  have d: "filler_of (Some options_empty_message) \<noteq> []"
    by (simp add: options_empty_message_def resolve_defs)
  have e: "lineStart_of (Some options_empty_message) = ''# ''"
    "lineEnd_of (Some options_empty_message) = '' #''"
    "newline_of spec_env (Some options_empty_message) = [LF]"
    by (simp_all add: options_empty_message_def resolve_defs spec_env_fields)
  from frame_of_empty_message [OF a b c d] a b d show ?thesis
    by (simp add: e)
qed

subsection \<open>Errors\<close>

text \<open>
  C9: with a non-empty filler the function throws nothing and returns a string,
  whatever the message, the \<open>lineWidth\<close> (zero and negative included) and the
  alignment sequence (the empty one included); the only operation of the function
  that can throw, \<open>filler.repeat\<close>, gets a finite count that is not negative.
\<close>

theorem no_error_with_nonempty_filler:
  assumes "filler_of options \<noteq> []"
  shows "(\<exists>out. generateAutoGeneratedWarningFrame env options = Inr out)
    \<and> (\<forall>e. generateAutoGeneratedWarningFrame env options \<noteq> Inl e)
    \<and> frameLine env options \<noteq> Inl RangeError
    \<and> length (contentLines env options) = length (lines_of env options)"
  using built_frame_nonempty [OF assms, of env] frameLine_nonempty [OF assms, of env]
  by (simp add: length_contentLines)

lemma degenerate_basics:
  "filler_of (Some options_degenerate) = ''#''"
  "maxLineLength (Some options_degenerate) = 0"
  "filler_of (Some options_zero_width) = ''#''"
  "maxLineLength (Some options_zero_width) = 0"
  by (simp_all add: options_degenerate_def options_zero_width_def resolve_defs)

theorem no_error_with_nonempty_filler_witness:
  "filler_of (Some options_degenerate) \<noteq> []
   \<and> generateAutoGeneratedWarningFrame spec_env (Some options_degenerate) =
       Inr (''#  #'' @ [LF] @ ''#  #'' @ [LF] @ ''#  #'')
   \<and> filler_of (Some options_zero_width) \<noteq> []
   \<and> generateAutoGeneratedWarningFrame spec_env (Some options_zero_width) =
       Inr (''# ##### #'' @ [LF] @ ''# ab cd #'' @ [LF] @ ''# ##### #'')"
proof -
  have ne1: "filler_of (Some options_degenerate) \<noteq> []"
    and ne2: "filler_of (Some options_zero_width) \<noteq> []"
    by (simp_all add: degenerate_basics)
  have out1: "generateAutoGeneratedWarningFrame spec_env (Some options_degenerate) =
      Inr (''#  #'' @ [LF] @ ''#  #'' @ [LF] @ ''#  #'')"
    by code_simp
  have out2: "generateAutoGeneratedWarningFrame spec_env (Some options_zero_width) =
      Inr (''# ##### #'' @ [LF] @ ''# ab cd #'' @ [LF] @ ''# ##### #'')"
    by code_simp
  from no_error_with_nonempty_filler [OF ne1, of spec_env]
    no_error_with_nonempty_filler [OF ne2, of spec_env] ne1 ne2 out1 out2
  show ?thesis by simp
qed

subsection \<open>A line width below the minimum\<close>

lemma resolved_without_lineWidth:
  "message_of (Some (opts\<lparr>lineWidth := w\<rparr>)) = message_of (Some opts)"
  "align_of (Some (opts\<lparr>lineWidth := w\<rparr>)) = align_of (Some opts)"
  "filler_of (Some (opts\<lparr>lineWidth := w\<rparr>)) = filler_of (Some opts)"
  "lineStart_of (Some (opts\<lparr>lineWidth := w\<rparr>)) = lineStart_of (Some opts)"
  "lineEnd_of (Some (opts\<lparr>lineWidth := w\<rparr>)) = lineEnd_of (Some opts)"
  "newline_of env (Some (opts\<lparr>lineWidth := w\<rparr>)) = newline_of env (Some opts)"
  "minLineLength (Some (opts\<lparr>lineWidth := w\<rparr>)) = minLineLength (Some opts)"
  by (simp_all add: message_of_def align_of_def filler_of_def lineStart_of_def lineEnd_of_def
      newline_of_def minLineLength_def opt_chain_def)

lemma frame_depends_on_maxLineLength:
  assumes "maxLineLength (Some (opts\<lparr>lineWidth := w\<rparr>)) =
      maxLineLength (Some (opts\<lparr>lineWidth := w'\<rparr>))"
  shows "generateAutoGeneratedWarningFrame env (Some (opts\<lparr>lineWidth := w\<rparr>)) =
      generateAutoGeneratedWarningFrame env (Some (opts\<lparr>lineWidth := w'\<rparr>))"
proof -
  have lns: "lines_of env (Some (opts\<lparr>lineWidth := w\<rparr>)) =
      lines_of env (Some (opts\<lparr>lineWidth := w'\<rparr>))"
    using assms by (simp add: lines_of_def resolved_without_lineWidth)
  then have fs: "frameSize env (Some (opts\<lparr>lineWidth := w\<rparr>)) =
      frameSize env (Some (opts\<lparr>lineWidth := w'\<rparr>))"
    by (simp add: frameSize_def)
  then have border: "frameLine env (Some (opts\<lparr>lineWidth := w\<rparr>)) =
      frameLine env (Some (opts\<lparr>lineWidth := w'\<rparr>))"
    by (simp add: frameLine_def fillerCount_def resolved_without_lineWidth
        cong: sum.case_cong)
  have rows: "contentLines env (Some (opts\<lparr>lineWidth := w\<rparr>)) =
      contentLines env (Some (opts\<lparr>lineWidth := w'\<rparr>))"
    by (simp add: contentLines_def lns fs resolved_without_lineWidth)
  show ?thesis
    by (simp add: generateAutoGeneratedWarningFrame_def builtFrame_def border rows
        resolved_without_lineWidth cong: sum.case_cong)
qed

text \<open>
  C2, as the code has it: a \<open>lineWidth\<close> smaller than
  \<open>minLineLength = length lineStart + length lineEnd\<close> does not underflow; the
  \<open>maxLineLength\<close> handed to the line wrapper is clamped to 0. That is the value the
  wrapper also gets when no \<open>lineWidth\<close> is given, so the lines and the whole frame
  are those of the render without a \<open>lineWidth\<close>, and no error arises when the
  filler is not empty.
\<close>

theorem small_lineWidth_is_no_limit:
  assumes "w < int (minLineLength (Some (opts\<lparr>lineWidth := Some w\<rparr>)))"
  shows "maxLineLength (Some (opts\<lparr>lineWidth := Some w\<rparr>)) = 0
    \<and> lines_of env (Some (opts\<lparr>lineWidth := Some w\<rparr>)) =
        splitLines env (message_of (Some opts)) 0
    \<and> generateAutoGeneratedWarningFrame env (Some (opts\<lparr>lineWidth := Some w\<rparr>)) =
        generateAutoGeneratedWarningFrame env (Some (opts\<lparr>lineWidth := None\<rparr>))
    \<and> (\<forall>e. filler_of (Some opts) \<noteq> [] \<longrightarrow>
          generateAutoGeneratedWarningFrame env (Some (opts\<lparr>lineWidth := Some w\<rparr>)) \<noteq> Inl e)"
proof -
  from assms have small: "w < int (minLineLength (Some opts))"
    by (simp add: resolved_without_lineWidth)
  then have mx: "maxLineLength (Some (opts\<lparr>lineWidth := Some w\<rparr>)) = 0"
    by (simp add: maxLineLength_def resolved_without_lineWidth or_int_def opt_chain_def)
  have mx0: "maxLineLength (Some (opts\<lparr>lineWidth := None\<rparr>)) = 0"
    by (simp add: maxLineLength_def resolved_without_lineWidth or_int_def opt_chain_def)
  have lns: "lines_of env (Some (opts\<lparr>lineWidth := Some w\<rparr>)) =
      splitLines env (message_of (Some opts)) 0"
    by (simp add: lines_of_def mx resolved_without_lineWidth)
  have same: "generateAutoGeneratedWarningFrame env (Some (opts\<lparr>lineWidth := Some w\<rparr>)) =
      generateAutoGeneratedWarningFrame env (Some (opts\<lparr>lineWidth := None\<rparr>))"
    by (rule frame_depends_on_maxLineLength) (simp add: mx mx0)
  have ok: "\<forall>e. filler_of (Some opts) \<noteq> [] \<longrightarrow>
      generateAutoGeneratedWarningFrame env (Some (opts\<lparr>lineWidth := Some w\<rparr>)) \<noteq> Inl e"
    using built_frame_nonempty [of "Some (opts\<lparr>lineWidth := Some w\<rparr>)" env]
    by (simp add: resolved_without_lineWidth)
  from mx lns same ok show ?thesis by blast
qed

lemma narrow_basics:
  "options_narrow\<lparr>lineWidth := Some 1\<rparr> = options_narrow"
  "minLineLength (Some options_narrow) = 4"
  "filler_of (Some options_narrow) = ''#''"
  by (simp_all add: options_narrow_def resolve_defs)

theorem small_lineWidth_is_no_limit_witness:
  "(1::int) < int (minLineLength (Some options_narrow))
   \<and> maxLineLength (Some options_narrow) = 0
   \<and> generateAutoGeneratedWarningFrame spec_env (Some options_narrow) =
       generateAutoGeneratedWarningFrame spec_env (Some (options_narrow\<lparr>lineWidth := None\<rparr>))"
proof -
  have small: "1 < int (minLineLength (Some (options_narrow\<lparr>lineWidth := Some 1\<rparr>)))"
    by (simp add: narrow_basics)
  from small_lineWidth_is_no_limit [OF small, of spec_env] small show ?thesis
    by (simp add: narrow_basics)
qed

text \<open>
  C2 as stated fails: with \<open>lineWidth = 1\<close>, below \<open>minLineLength = 4\<close>, the line wrapper
  of the specification treats the clamped 0 as no limit, and the message \<open>ab cd\<close>
  stays one content line of two words; it is not wrapped to one word or one
  character per line.
\<close>

theorem small_lineWidth_counterexample:
  "lineWidth options_narrow = Some 1
   \<and> minLineLength (Some options_narrow) = 4
   \<and> maxLineLength (Some options_narrow) = 0
   \<and> lines_of spec_env (Some options_narrow) = [''ab cd'']
   \<and> generateAutoGeneratedWarningFrame spec_env (Some options_narrow) =
       Inr (''# ##### #'' @ [LF] @ ''# ab cd #'' @ [LF] @ ''# ##### #'')"
  by code_simp

subsection \<open>The empty filler\<close>

text \<open>
  C3, as the code has it: an empty filler is not guarded, \<open>frameSize\<close> is divided by
  the length 0. When \<open>frameSize\<close> is 0 the quotient is \<open>NaN\<close>, the filler is repeated
  zero times and the frame is returned with the border \<open>lineStart + lineEnd\<close>; when
  \<open>frameSize\<close> is positive the quotient is \<open>Infinity\<close> and \<open>filler.repeat\<close> throws a
  \<open>RangeError\<close>.
\<close>

theorem empty_filler_is_not_guarded:
  assumes "filler_of options = []"
  shows "fillerCount env options = (if frameSize env options = 0 then NaN else PosInf)
    \<and> generateAutoGeneratedWarningFrame env options =
        (if frameSize env options = 0
         then Inr (join (newline_of env options)
                ((lineStart_of options @ lineEnd_of options) #
                 contentLines env options @
                 [lineStart_of options @ lineEnd_of options]))
         else Inl RangeError)"
  using assms
  by (simp add: generateAutoGeneratedWarningFrame_def builtFrame_def frameLine_def
      fillerCount_def js_divide_def Math_ceil_def repeat_def)

theorem empty_filler_is_not_guarded_witness:
  "filler_of (Some options_empty_filler) = []
   \<and> frameSize spec_env (Some options_empty_filler) = 2
   \<and> fillerCount spec_env (Some options_empty_filler) = PosInf
   \<and> generateAutoGeneratedWarningFrame spec_env (Some options_empty_filler) = Inl RangeError
   \<and> filler_of (Some options_empty_filler_blank) = []
   \<and> frameSize spec_env (Some options_empty_filler_blank) = 0
   \<and> fillerCount spec_env (Some options_empty_filler_blank) = NaN
   \<and> generateAutoGeneratedWarningFrame spec_env (Some options_empty_filler_blank) =
       Inr (''  '' @ [LF] @ ''  '' @ [LF] @ ''  '')"
proof -
  have e1: "filler_of (Some options_empty_filler) = []"
    and e2: "filler_of (Some options_empty_filler_blank) = []"
    by (simp_all add: options_empty_filler_def options_empty_filler_blank_def resolve_defs)
  have fs1: "frameSize spec_env (Some options_empty_filler) = 2"
    and fs2: "frameSize spec_env (Some options_empty_filler_blank) = 0"
    by code_simp+
  have rows: "contentLines spec_env (Some options_empty_filler_blank) = [''  '']"
    by code_simp
  have rest: "lineStart_of (Some options_empty_filler_blank) = '' ''"
    "lineEnd_of (Some options_empty_filler_blank) = '' ''"
    "newline_of spec_env (Some options_empty_filler_blank) = [LF]"
    by (simp_all add: options_empty_filler_blank_def resolve_defs spec_env_fields)
  from empty_filler_is_not_guarded [OF e1, of spec_env]
    empty_filler_is_not_guarded [OF e2, of spec_env] e1 e2 fs1 fs2
  show ?thesis by (simp add: rows rest)
qed

text \<open>
  C3 as stated fails: for the message \<open>hi\<close> and the style \<open>{ filler: "" }\<close> the call
  throws a \<open>RangeError\<close>.
\<close>

theorem empty_filler_counterexample:
  "opt_chain (opt_chain (Some options_empty_filler) style) filler = Some []
   \<and> generateAutoGeneratedWarningFrame spec_env (Some options_empty_filler) = Inl RangeError"
  by code_simp

end
